theory Spec2Isabelle
  imports Complex_Main "HOL-Library.Sublist" "HOL-Library.AList"
begin

section \<open>Values of the Python run time\<close>

text \<open>
  The detector of \<^verbatim>\<open>realtime_network_monitor.py\<close> works on Python and NumPy values.
  Floating-point numbers are read as the real numbers they denote; the one place where
  the source changes the precision (\<^verbatim>\<open>astype(np.float32)\<close>) takes the rounding function as
  a parameter \<open>f32\<close>. Exceptions are values: every function that can raise returns a sum
  whose left injection is the exception.
\<close>

datatype py_exception =
    ValueError string
  | IndexError string
  | TypeError string
  | ZeroDivisionError string
  | Exception string

text \<open>
  A comparison of a NumPy scalar (\<^verbatim>\<open>confidence > self.confidence_threshold\<close>, where
  \<^verbatim>\<open>confidence\<close> is an element of a NumPy array) is a \<^verbatim>\<open>numpy.bool_\<close>, a membership test
  on a list of strings is a Python \<^verbatim>\<open>bool\<close>. Python's \<^verbatim>\<open>and\<close> and \<^verbatim>\<open>or\<close> return one of
  their operands, so the kind of the value survives them.
\<close>

datatype pybool = PyBool bool | NpBool bool

fun truthy :: "pybool \<Rightarrow> bool" where
  "truthy (PyBool b) = b"
| "truthy (NpBool b) = b"

definition py_and :: "pybool \<Rightarrow> pybool \<Rightarrow> pybool" where
  "py_and a b = (if truthy a then b else a)"

definition py_or :: "pybool \<Rightarrow> pybool \<Rightarrow> pybool" where
  "py_or a b = (if truthy a then a else b)"

subsection \<open>Strings\<close>

text \<open>
  \<^verbatim>\<open>str.lower\<close> on the ASCII letters; every other byte is kept. No character outside
  ASCII lowers to a letter of the three benign labels, so the comparison of line 89 is
  exact on UTF-8 strings.
\<close>

definition lower_char :: "char \<Rightarrow> char" where
  "lower_char c =
     (case map_of (zip ''ABCDEFGHIJKLMNOPQRSTUVWXYZ'' ''abcdefghijklmnopqrstuvwxyz'') c of
        Some l \<Rightarrow> l
      | None \<Rightarrow> c)"

definition lower :: "string \<Rightarrow> string" where
  "lower s = map lower_char s"

text \<open>\<^verbatim>\<open>sub in s\<close> on strings: \<open>sub\<close> occurs in \<open>s\<close> as a contiguous block.\<close>

fun str_contains :: "string \<Rightarrow> string \<Rightarrow> bool" where
  "str_contains sub [] = (sub = [])"
| "str_contains sub (c # cs) = (prefix sub (c # cs) \<or> str_contains sub cs)"

subsection \<open>Arrays and frames\<close>

datatype np_dtype = Float32 | Float64

record ndarray =
  dtype :: np_dtype
  data :: "real list list"

definition astype :: "(real \<Rightarrow> real) \<Rightarrow> ndarray \<Rightarrow> ndarray" where
  "astype f32 a = \<lparr>dtype = Float32, data = map (map f32) (data a)\<rparr>"

record dataframe =
  columns :: "string list"
  df_rows :: "real list list"

text \<open>\<^verbatim>\<open>pd.DataFrame([d])\<close> of one dict: its keys, in insertion order, are the columns.\<close>

definition DataFrame :: "(string \<times> real) list \<Rightarrow> dataframe" where
  "DataFrame d = \<lparr>columns = map fst d, df_rows = [map snd d]\<rparr>"

definition df_values :: "dataframe \<Rightarrow> ndarray" where
  "df_values df = \<lparr>dtype = Float64, data = df_rows df\<rparr>"

text \<open>
  \<^verbatim>\<open>np.argmax\<close> of a one-dimensional array: the index of the first occurrence of the
  maximum; an empty array raises.
\<close>

fun argmax_from :: "real list \<Rightarrow> nat \<Rightarrow> nat \<Rightarrow> real \<Rightarrow> nat" where
  "argmax_from [] i best_i best = best_i"
| "argmax_from (x # xs) i best_i best =
     (if best < x then argmax_from xs (Suc i) i x else argmax_from xs (Suc i) best_i best)"

definition argmax :: "real list \<Rightarrow> py_exception + nat" where
  "argmax xs =
     (case xs of
        [] \<Rightarrow> Inl (ValueError ''attempt to get argmax of an empty sequence'')
      | x # rest \<Rightarrow> Inr (argmax_from rest 1 0 x))"

section \<open>NetworkAttackDetector\<close>

text \<open>
  The fitted scaler and the ONNX session are loaded artifacts: \<open>scaler\<close> is
  \<^verbatim>\<open>self.scaler.transform\<close>, \<open>session\<close> is \<^verbatim>\<open>self.session.run(None, {'features': x})\<close>,
  which returns the logits and the probabilities. Either may raise.
\<close>

record detector =
  scaler :: "dataframe \<Rightarrow> py_exception + ndarray"
  session :: "ndarray \<Rightarrow> py_exception + (real list list \<times> real list list)"
  feature_names :: "string list"
  classes :: "string list"
  confidence_threshold :: real
  low_threat_classes :: "string list"
  total_predictions :: nat
  attack_detections :: nat
  inference_times :: "real list"

text \<open>The state \<^verbatim>\<open>__init__\<close> builds (lines 22 to 53) from the loaded artifacts.\<close>

definition init_detector ::
  "(dataframe \<Rightarrow> py_exception + ndarray) \<Rightarrow>
   (ndarray \<Rightarrow> py_exception + (real list list \<times> real list list)) \<Rightarrow>
   string list \<Rightarrow> string list \<Rightarrow> real \<Rightarrow> detector" where
  "init_detector sc se names cls threshold =
     \<lparr>scaler = sc, session = se, feature_names = names, classes = cls,
      confidence_threshold = threshold,
      low_threat_classes = [''VulnerabilityScan'', ''Recon-PingSweep'', ''BrowserHijacking''],
      total_predictions = 0, attack_detections = 0, inference_times = []\<rparr>"

datatype console_line = NormalizationWarning py_exception

subsection \<open>preprocess_features\<close>

text \<open>
  The loop of lines 57 to 59 fills a dict, which keeps the position of the first
  insertion of a key; \<^verbatim>\<open>features_dict.get(name, 0.0)\<close> is the lookup with default.
\<close>

definition dict_get :: "(string \<rightharpoonup> real) \<Rightarrow> string \<Rightarrow> real \<Rightarrow> real" where
  "dict_get m k dflt = (case m k of None \<Rightarrow> dflt | Some v \<Rightarrow> v)"

definition feature_values :: "string list \<Rightarrow> (string \<rightharpoonup> real) \<Rightarrow> (string \<times> real) list" where
  "feature_values names features_dict =
     foldl (\<lambda>fv feature_name. AList.update feature_name (dict_get features_dict feature_name 0) fv)
       [] names"

text \<open>The frame of line 61, which the scaler receives.\<close>

definition features_df :: "detector \<Rightarrow> (string \<rightharpoonup> real) \<Rightarrow> dataframe" where
  "features_df d features_dict = DataFrame (feature_values (feature_names d) features_dict)"

definition preprocess_features ::
  "(real \<Rightarrow> real) \<Rightarrow> detector \<Rightarrow> (string \<rightharpoonup> real) \<Rightarrow> console_line list \<times> ndarray" where
  "preprocess_features f32 d features_dict =
     (case scaler d (features_df d features_dict) of
        Inl e \<Rightarrow> ([NormalizationWarning e], astype f32 (df_values (features_df d features_dict)))
      | Inr features_scaled \<Rightarrow> ([], astype f32 features_scaled))"

subsection \<open>predict\<close>

record prediction_result =
  timestamp :: string
  predicted_class :: string
  confidence :: real
  is_attack :: pybool
  is_benign :: bool
  is_high_threat :: bool
  is_ddos :: bool
  res_confidence_threshold :: real
  inference_time_ms :: real
  all_probabilities :: "real list"

definition benign_labels :: "string list" where
  "benign_labels = [''benigntraffic'', ''benign'', ''normal'']"

definition ddos_classes :: "detector \<Rightarrow> string list" where
  "ddos_classes d =
     filter (\<lambda>cls. str_contains ''DDoS'' cls \<or> str_contains ''DoS'' cls) (classes d)"

text \<open>
  Lines 95 to 112, for a class that is not benign. The value is the last operand that
  Python's \<^verbatim>\<open>or\<close> chain evaluates.
\<close>

definition critical_attack :: "detector \<Rightarrow> string \<Rightarrow> real \<Rightarrow> pybool" where
  "critical_attack d cls conf =
     (let high_confidence_attack = NpBool (confidence_threshold d < conf);
          high_threat = PyBool (cls \<notin> set (low_threat_classes d));
          ddos = PyBool (cls \<in> set (ddos_classes d))
      in py_or (py_or (py_and high_confidence_attack high_threat)
                      (py_and high_confidence_attack ddos))
               (NpBool (0.9 < conf)))"

text \<open>
  \<open>predict\<close> takes the two readings of the clock as arguments: the measured latency in
  milliseconds and the timestamp of the result. It returns what was printed, the result
  or the exception, and the detector after the call. Every exception of the model is
  raised before line 84, so a failed call leaves the counters as they were.
\<close>

definition predict ::
  "(real \<Rightarrow> real) \<Rightarrow> detector \<Rightarrow> (string \<rightharpoonup> real) \<Rightarrow> real \<Rightarrow> string \<Rightarrow>
   console_line list \<times> (py_exception + prediction_result) \<times> detector" where
  "predict f32 d features_dict inference_time now =
     (let (out, features) = preprocess_features f32 d features_dict
      in case session d features of
           Inl e \<Rightarrow> (out, Inl e, d)
         | Inr (logits, probabilities) \<Rightarrow>
             (case probabilities of
                [] \<Rightarrow> (out, Inl (IndexError ''index 0 is out of bounds for axis 0 with size 0''), d)
              | p0 # _ \<Rightarrow>
                  (case argmax p0 of
                     Inl e \<Rightarrow> (out, Inl e, d)
                   | Inr predicted_class_idx \<Rightarrow>
                       if length (classes d) \<le> predicted_class_idx
                       then (out, Inl (IndexError ''list index out of range''), d)
                       else
                         let predicted_class = classes d ! predicted_class_idx;
                             confidence = p0 ! predicted_class_idx;
                             d1 = d\<lparr>total_predictions := total_predictions d + 1,
                                    inference_times := inference_times d @ [inference_time]\<rparr>;
                             is_benign = (lower predicted_class \<in> set benign_labels);
                             is_critical_attack =
                               (if is_benign then PyBool False
                                else critical_attack d predicted_class confidence);
                             d2 = (if truthy is_critical_attack
                                   then d1\<lparr>attack_detections := attack_detections d1 + 1\<rparr>
                                   else d1)
                         in (out,
                             Inr \<lparr>timestamp = now,
                                  predicted_class = predicted_class,
                                  confidence = confidence,
                                  is_attack = is_critical_attack,
                                  is_benign = is_benign,
                                  is_high_threat =
                                    (if \<not> is_benign
                                     then predicted_class \<notin> set (low_threat_classes d)
                                     else False),
                                  is_ddos =
                                    (if \<not> is_benign
                                     then predicted_class \<in> set (ddos_classes d)
                                     else False),
                                  res_confidence_threshold = confidence_threshold d,
                                  inference_time_ms = inference_time,
                                  all_probabilities = p0\<rparr>,
                             d2))))"

subsection \<open>get_statistics\<close>

text \<open>
  The division of two Python ints raises on a zero divisor. The NumPy reductions return
  a \<^verbatim>\<open>float64\<close>, whose division does not raise: a zero divisor gives an infinity, or a
  NaN for \<open>0 / 0\<close>; the mean of no value is a NaN, the maximum of no value raises.
\<close>

datatype np_float = Finite real | PosInf | NegInf | NaN

definition py_truediv :: "nat \<Rightarrow> nat \<Rightarrow> py_exception + real" where
  "py_truediv a b =
     (if b = 0 then Inl (ZeroDivisionError ''division by zero'') else Inr (real a / real b))"

definition np_mean :: "real list \<Rightarrow> np_float" where
  "np_mean xs = (if xs = [] then NaN else Finite (sum_list xs / real (length xs)))"

definition np_max :: "real list \<Rightarrow> py_exception + real" where
  "np_max xs =
     (case xs of
        [] \<Rightarrow> Inl (ValueError ''zero-size array to reduction operation maximum which has no identity'')
      | x # rest \<Rightarrow> Inr (fold max rest x))"

definition np_min :: "real list \<Rightarrow> py_exception + real" where
  "np_min xs =
     (case xs of
        [] \<Rightarrow> Inl (ValueError ''zero-size array to reduction operation minimum which has no identity'')
      | x # rest \<Rightarrow> Inr (fold min rest x))"

fun np_rdiv :: "real \<Rightarrow> np_float \<Rightarrow> np_float" where
  "np_rdiv a (Finite m) =
     (if m \<noteq> 0 then Finite (a / m)
      else if 0 < a then PosInf else if a < 0 then NegInf else NaN)"
| "np_rdiv a PosInf = Finite 0"
| "np_rdiv a NegInf = Finite 0"
| "np_rdiv a NaN = NaN"

record statistics =
  stat_total_predictions :: nat
  stat_attack_detections :: nat
  attack_rate :: real
  avg_inference_time_ms :: np_float
  max_inference_time_ms :: real
  min_inference_time_ms :: real
  throughput_per_second :: np_float
  stat_confidence_threshold :: real

text \<open>\<open>Inr None\<close> is the empty dict of line 134.\<close>

definition get_statistics :: "detector \<Rightarrow> py_exception + statistics option" where
  "get_statistics d =
     (if inference_times d = [] then Inr None
      else
        case (if 0 < total_predictions d
              then py_truediv (attack_detections d) (total_predictions d)
              else Inr 0) of
          Inl e \<Rightarrow> Inl e
        | Inr rate \<Rightarrow>
            (case np_max (inference_times d) of
               Inl e \<Rightarrow> Inl e
             | Inr mx \<Rightarrow>
                 (case np_min (inference_times d) of
                    Inl e \<Rightarrow> Inl e
                  | Inr mn \<Rightarrow>
                      Inr (Some \<lparr>stat_total_predictions = total_predictions d,
                                 stat_attack_detections = attack_detections d,
                                 attack_rate = rate,
                                 avg_inference_time_ms = np_mean (inference_times d),
                                 max_inference_time_ms = mx,
                                 min_inference_time_ms = mn,
                                 throughput_per_second = np_rdiv 1000 (np_mean (inference_times d)),
                                 stat_confidence_threshold = confidence_threshold d\<rparr>))))"

subsection \<open>The operations on a detector\<close>

text \<open>
  One step of a detector: a call of one of its methods, with the detector it leaves.
  \<open>reachable\<close> are the detectors that calls of \<open>predict\<close> produce from the state
  \<^verbatim>\<open>__init__\<close> builds.
\<close>

inductive detector_step :: "detector \<Rightarrow> detector \<Rightarrow> bool" where
  step_predict:
    "predict f32 d features_dict inference_time now = (out, res, d') \<Longrightarrow> detector_step d d'"
| step_preprocess_features: "detector_step d d"
| step_get_statistics: "detector_step d d"

inductive reachable :: "detector \<Rightarrow> bool" where
  reachable_init: "reachable (init_detector sc se names cls threshold)"
| reachable_predict:
    "reachable d \<Longrightarrow> predict f32 d features_dict inference_time now = (out, res, d') \<Longrightarrow>
     reachable d'"

section \<open>RealTimeMonitor\<close>

text \<open>
  The report stream is the result file, or the standard output when there is none; the
  alert log is \<^verbatim>\<open>log_file\<close>, one line for each dumped result. A message is kept as its
  severity with the class and the confidence it prints.
\<close>

datatype report_line =
    CriticalAttack string real
  | NormalTraffic string real
  | SuspiciousActivity string real
  | LowRisk string real
  | ProcessingError py_exception

record monitor =
  mon_detector :: detector
  log_file :: "prediction_result list"
  report :: "report_line list"
  console :: "console_line list"
  data_queue :: "(string \<rightharpoonup> real) list"
  unfinished_tasks :: nat
  results :: "prediction_result list"

text \<open>
  \<^verbatim>\<open>json.dumps\<close> encodes Python's \<^verbatim>\<open>bool\<close>, \<^verbatim>\<open>float\<close>, \<^verbatim>\<open>str\<close> and lists of them; it has
  no encoding for a \<^verbatim>\<open>numpy.bool_\<close> and raises \<^verbatim>\<open>TypeError\<close>, before anything is written.
  Every other field of a result is a \<^verbatim>\<open>str\<close>, a \<^verbatim>\<open>float\<close>, a \<^verbatim>\<open>bool\<close> or a list of
  floats (lines 119 to 128).
\<close>

definition json_dumps :: "prediction_result \<Rightarrow> py_exception + prediction_result" where
  "json_dumps r =
     (case is_attack r of
        PyBool _ \<Rightarrow> Inr r
      | NpBool _ \<Rightarrow> Inl (TypeError ''Object of type bool_ is not JSON serializable''))"

definition log_detection :: "monitor \<Rightarrow> prediction_result \<Rightarrow> py_exception + monitor" where
  "log_detection m r =
     (case json_dumps r of
        Inl e \<Rightarrow> Inl e
      | Inr line \<Rightarrow> Inr (m\<lparr>log_file := log_file m @ [line]\<rparr>))"

definition save_result :: "monitor \<Rightarrow> report_line \<Rightarrow> monitor" where
  "save_result m message = m\<lparr>report := report m @ [message]\<rparr>"

text \<open>
  The queue counts the samples that were put and not yet marked done; \<^verbatim>\<open>task_done\<close>
  raises when there is none.
\<close>

definition add_data :: "monitor \<Rightarrow> (string \<rightharpoonup> real) \<Rightarrow> monitor" where
  "add_data m features_dict =
     m\<lparr>data_queue := data_queue m @ [features_dict],
       unfinished_tasks := unfinished_tasks m + 1\<rparr>"

definition task_done :: "monitor \<Rightarrow> py_exception + monitor" where
  "task_done m =
     (if unfinished_tasks m = 0 then Inl (ValueError ''task_done() called too many times'')
      else Inr (m\<lparr>unfinished_tasks := unfinished_tasks m - 1\<rparr>))"

text \<open>
  The handler of lines 256 to 258: an exception raised in the \<^verbatim>\<open>try\<close> block is reported
  on the report stream, and the monitor stays as it was when the exception was raised.
\<close>

definition except_handler :: "monitor \<Rightarrow> py_exception + monitor \<Rightarrow> monitor" where
  "except_handler m outcome =
     (case outcome of
        Inl e \<Rightarrow> save_result m (ProcessingError e)
      | Inr m' \<Rightarrow> m')"

text \<open>
  The body of the loop of \<open>process_data_stream\<close> (lines 234 to 258) on a sample taken
  from the queue.
\<close>

definition process_sample ::
  "(real \<Rightarrow> real) \<Rightarrow> monitor \<Rightarrow> (string \<rightharpoonup> real) \<Rightarrow> real \<Rightarrow> string \<Rightarrow> monitor" where
  "process_sample f32 m features_dict inference_time now =
     (case predict f32 (mon_detector m) features_dict inference_time now of
        (out, Inl e, d') \<Rightarrow>
          except_handler (m\<lparr>mon_detector := d', console := console m @ out\<rparr>) (Inl e)
      | (out, Inr result, d') \<Rightarrow>
          let m1 = m\<lparr>mon_detector := d', console := console m @ out,
                     results := results m @ [result]\<rparr>
          in if truthy (is_attack result) then
               (let m2 = save_result m1
                           (CriticalAttack (predicted_class result) (confidence result))
                in except_handler m2
                     (case log_detection m2 result of
                        Inl e \<Rightarrow> Inl e
                      | Inr m3 \<Rightarrow> task_done m3))
             else if is_benign result then
               (let m2 = save_result m1
                           (NormalTraffic (predicted_class result) (confidence result))
                in except_handler m2 (task_done m2))
             else if confidence_threshold (mon_detector m1) \<le> confidence result then
               (let m2 = save_result m1
                           (SuspiciousActivity (predicted_class result) (confidence result))
                in except_handler m2 (task_done m2))
             else
               (let m2 = save_result m1
                           (LowRisk (predicted_class result) (confidence result))
                in except_handler m2 (task_done m2)))"

text \<open>
  One turn of the loop while the monitor runs: an empty queue times out and the turn
  changes nothing, otherwise the oldest sample is taken and processed.
\<close>

definition process_data_stream_turn ::
  "(real \<Rightarrow> real) \<Rightarrow> monitor \<Rightarrow> real \<Rightarrow> string \<Rightarrow> monitor" where
  "process_data_stream_turn f32 m inference_time now =
     (case data_queue m of
        [] \<Rightarrow> m
      | features_dict # rest \<Rightarrow>
          process_sample f32 (m\<lparr>data_queue := rest\<rparr>) features_dict inference_time now)"

definition init_monitor :: "detector \<Rightarrow> monitor" where
  "init_monitor d =
     \<lparr>mon_detector = d, log_file = [], report = [], console = [], data_queue = [],
      unfinished_tasks = 0, results = []\<rparr>"

section \<open>A small detector to run the definitions on\<close>

text \<open>
  Four features and four classes. The session of the example answers with its input row
  as the probabilities, so that a sample chooses the class and the confidence; the
  scaler leaves the frame as it is, and a second one always raises.
\<close>

definition example_classes :: "string list" where
  "example_classes =
     [''BenignTraffic'', ''DDoS-ICMP_Flood'', ''VulnerabilityScan'', ''Recon-PingSweep'']"

definition example_names :: "string list" where
  "example_names = [''f0'', ''f1'', ''f2'', ''f3'']"

definition example_scaler :: "dataframe \<Rightarrow> py_exception + ndarray" where
  "example_scaler df = Inr (df_values df)"

definition failing_scaler :: "dataframe \<Rightarrow> py_exception + ndarray" where
  "failing_scaler df = Inl (ValueError ''X has 4 features, but StandardScaler is expecting 46'')"

definition example_session :: "ndarray \<Rightarrow> py_exception + (real list list \<times> real list list)" where
  "example_session x = Inr (data x, data x)"

definition example_detector :: detector where
  "example_detector =
     init_detector example_scaler example_session example_names example_classes 0.8"

definition benign_sample :: "string \<rightharpoonup> real" where
  "benign_sample = map_of [(''f0'', 0.99), (''f1'', 0.01)]"

definition ddos_sample :: "string \<rightharpoonup> real" where
  "ddos_sample = map_of [(''f0'', 0.05), (''f1'', 0.85), (''f2'', 0.1)]"


definition sweep_sample :: "string \<rightharpoonup> real" where
  "sweep_sample = map_of [(''f3'', 0.95), (''f0'', 0.05)]"

definition weak_sample :: "string \<rightharpoonup> real" where
  "weak_sample = map_of [(''f1'', 0.6), (''f2'', 0.4)]"

definition tie_sample :: "string \<rightharpoonup> real" where
  "tie_sample = map_of [(''f0'', 0.2), (''f1'', 0.4), (''f2'', 0.4)]"

definition unscaled_detector :: detector where
  "unscaled_detector =
     init_detector failing_scaler example_session example_names example_classes 0.8"

section \<open>Facts about the library functions\<close>

subsection \<open>argmax returns the first index of the maximum\<close>

lemma argmax_from_first_max:
  assumes "best_i < i" "length pre = i" "pre ! best_i = best"
    "\<forall>j<i. pre ! j \<le> best" "\<forall>j<best_i. pre ! j < best"
  shows "argmax_from xs i best_i best < i + length xs \<and>
         (\<forall>j < i + length xs. (pre @ xs) ! j \<le> (pre @ xs) ! argmax_from xs i best_i best) \<and>
         (\<forall>j < argmax_from xs i best_i best. (pre @ xs) ! j < (pre @ xs) ! argmax_from xs i best_i best)"
  using assms
proof (induction xs arbitrary: pre i best_i best)
  case Nil
  then show ?case by simp
next
  case (Cons x xs)
  show ?case
  proof (cases "best < x")
    case True
    have "argmax_from xs (Suc i) i x < Suc i + length xs \<and>
         (\<forall>j < Suc i + length xs. ((pre @ [x]) @ xs) ! j \<le> ((pre @ [x]) @ xs) ! argmax_from xs (Suc i) i x) \<and>
         (\<forall>j < argmax_from xs (Suc i) i x. ((pre @ [x]) @ xs) ! j < ((pre @ [x]) @ xs) ! argmax_from xs (Suc i) i x)"
    proof (rule Cons.IH)
      show "i < Suc i" by simp
      show "length (pre @ [x]) = Suc i" using Cons.prems by simp
      show "(pre @ [x]) ! i = x" using Cons.prems by (simp add: nth_append)
      show "\<forall>j<Suc i. (pre @ [x]) ! j \<le> x"
        using Cons.prems True by (auto simp: nth_append less_Suc_eq intro: less_imp_le order.trans)
      show "\<forall>j<i. (pre @ [x]) ! j < x"
        using Cons.prems True by (auto simp: nth_append intro: le_less_trans)
    qed
    with True show ?thesis by simp
  next
    case False
    have "argmax_from xs (Suc i) best_i best < Suc i + length xs \<and>
         (\<forall>j < Suc i + length xs. ((pre @ [x]) @ xs) ! j \<le> ((pre @ [x]) @ xs) ! argmax_from xs (Suc i) best_i best) \<and>
         (\<forall>j < argmax_from xs (Suc i) best_i best. ((pre @ [x]) @ xs) ! j < ((pre @ [x]) @ xs) ! argmax_from xs (Suc i) best_i best)"
    proof (rule Cons.IH)
      show "best_i < Suc i" using Cons.prems by simp
      show "length (pre @ [x]) = Suc i" using Cons.prems by simp
      show "(pre @ [x]) ! best_i = best" using Cons.prems by (simp add: nth_append)
      show "\<forall>j<Suc i. (pre @ [x]) ! j \<le> best"
        using Cons.prems False by (auto simp: nth_append less_Suc_eq)
      show "\<forall>j<best_i. (pre @ [x]) ! j < best"
        using Cons.prems by (auto simp: nth_append)
    qed
    with False show ?thesis by simp
  qed
qed

lemma argmax_first_max:
  assumes "argmax xs = Inr i"
  shows "i < length xs \<and> (\<forall>j < length xs. xs ! j \<le> xs ! i) \<and> (\<forall>j < i. xs ! j < xs ! i)"
proof (cases xs)
  case Nil
  with assms show ?thesis by (simp add: argmax_def)
next
  case (Cons x rest)
  with assms have i: "i = argmax_from rest 1 0 x" by (simp add: argmax_def)
  have "argmax_from rest 1 0 x < 1 + length rest \<and>
         (\<forall>j < 1 + length rest. ([x] @ rest) ! j \<le> ([x] @ rest) ! argmax_from rest 1 0 x) \<and>
         (\<forall>j < argmax_from rest 1 0 x. ([x] @ rest) ! j < ([x] @ rest) ! argmax_from rest 1 0 x)"
    by (rule argmax_from_first_max) simp_all
  with i Cons show ?thesis by simp
qed

lemma argmax_Max:
  assumes "argmax xs = Inr i"
  shows "xs ! i = Max (set xs)"
proof -
  from argmax_first_max[OF assms]
  have i: "i < length xs" and le: "\<forall>j < length xs. xs ! j \<le> xs ! i" by simp_all
  show ?thesis
  proof (rule sym, rule Max_eqI)
    show "finite (set xs)" by simp
    show "xs ! i \<in> set xs" using i by simp
    fix y assume "y \<in> set xs"
    then obtain j where "j < length xs" "xs ! j = y" by (auto simp: in_set_conv_nth)
    with le show "y \<le> xs ! i" by auto
  qed
qed

lemma argmax_nonempty: "xs \<noteq> [] \<Longrightarrow> \<exists>i. argmax xs = Inr i"
  by (cases xs) (simp_all add: argmax_def)

lemma argmax_empty: "\<exists>e. argmax [] = Inl e"
  by (simp add: argmax_def)

subsection \<open>Substrings\<close>


section \<open>The paths through predict\<close>

lemma truthy_critical_attack:
  "truthy (critical_attack d c x) =
     ((confidence_threshold d < x \<and> c \<notin> set (low_threat_classes d)) \<or>
      (confidence_threshold d < x \<and> c \<in> set (ddos_classes d)) \<or> 0.9 < x)"
  by (auto simp: critical_attack_def py_and_def py_or_def Let_def)

lemma in_ddos_classes:
  "c \<in> set (ddos_classes d) \<longleftrightarrow>
     c \<in> set (classes d) \<and> (str_contains ''DDoS'' c \<or> str_contains ''DoS'' c)"
  by (simp add: ddos_classes_def)

lemma predict_session_raises:
  "preprocess_features f32 d fd = (out, x) \<Longrightarrow> session d x = Inl e \<Longrightarrow>
   predict f32 d fd t now = (out, Inl e, d)"
  by (simp add: predict_def)

lemma predict_no_row:
  "preprocess_features f32 d fd = (out, x) \<Longrightarrow> session d x = Inr (lg, []) \<Longrightarrow>
   \<exists>e. predict f32 d fd t now = (out, Inl e, d)"
  by (simp add: predict_def)

lemma predict_argmax_raises:
  "preprocess_features f32 d fd = (out, x) \<Longrightarrow> session d x = Inr (lg, p0 # ps) \<Longrightarrow>
   argmax p0 = Inl e \<Longrightarrow> predict f32 d fd t now = (out, Inl e, d)"
  by (simp add: predict_def)

lemma predict_index_raises:
  "preprocess_features f32 d fd = (out, x) \<Longrightarrow> session d x = Inr (lg, p0 # ps) \<Longrightarrow>
   argmax p0 = Inr idx \<Longrightarrow> length (classes d) \<le> idx \<Longrightarrow>
   \<exists>e. predict f32 d fd t now = (out, Inl e, d)"
  by (simp add: predict_def)

lemma predict_returns:
  assumes "preprocess_features f32 d fd = (out, x)" "session d x = Inr (lg, p0 # ps)"
    "argmax p0 = Inr idx" "idx < length (classes d)"
  shows "predict f32 d fd t now =
    (out,
     Inr \<lparr>timestamp = now,
          predicted_class = classes d ! idx,
          confidence = p0 ! idx,
          is_attack = (if lower (classes d ! idx) \<in> set benign_labels then PyBool False
                       else critical_attack d (classes d ! idx) (p0 ! idx)),
          is_benign = (lower (classes d ! idx) \<in> set benign_labels),
          is_high_threat = (lower (classes d ! idx) \<notin> set benign_labels \<and>
                            classes d ! idx \<notin> set (low_threat_classes d)),
          is_ddos = (lower (classes d ! idx) \<notin> set benign_labels \<and>
                     classes d ! idx \<in> set (ddos_classes d)),
          res_confidence_threshold = confidence_threshold d,
          inference_time_ms = t,
          all_probabilities = p0\<rparr>,
     d\<lparr>total_predictions := total_predictions d + 1,
       inference_times := inference_times d @ [t],
       attack_detections := attack_detections d +
         (if truthy (if lower (classes d ! idx) \<in> set benign_labels then PyBool False
                     else critical_attack d (classes d ! idx) (p0 ! idx)) then 1 else 0)\<rparr>)"
  using assms by (simp add: predict_def Let_def)

text \<open>Every call either raises and leaves the detector as it was, or returns.\<close>

lemma predict_cases:
  obtains
    (raises) out e where "predict f32 d fd t now = (out, Inl e, d)"
  | (returns) out x lg p0 ps idx where
      "preprocess_features f32 d fd = (out, x)" "session d x = Inr (lg, p0 # ps)"
      "argmax p0 = Inr idx" "idx < length (classes d)"
proof -
  obtain out x where pp: "preprocess_features f32 d fd = (out, x)"
    by (cases "preprocess_features f32 d fd") auto
  show ?thesis
  proof (cases "session d x")
    case (Inl e)
    from predict_session_raises[OF pp Inl] show ?thesis by (rule raises)
  next
    case (Inr pair)
    obtain lg probs where pair: "pair = (lg, probs)" by (cases pair) auto
    show ?thesis
    proof (cases probs)
      case Nil
      with Inr pair predict_no_row[OF pp] show ?thesis using raises by blast
    next
      case (Cons p0 ps)
      with Inr pair have s: "session d x = Inr (lg, p0 # ps)" by simp
      show ?thesis
      proof (cases "argmax p0")
        case (Inl e)
        from predict_argmax_raises[OF pp s Inl] show ?thesis by (rule raises)
      next
        case (Inr idx)
        show ?thesis
        proof (cases "idx < length (classes d)")
          case True
          with pp s Inr show ?thesis by (rule returns)
        next
          case False
          then have "length (classes d) \<le> idx" by simp
          from predict_index_raises[OF pp s Inr this] show ?thesis using raises by blast
        qed
      qed
    qed
  qed
qed

lemma predict_Inr:
  assumes "predict f32 d fd t now = (out, Inr r, d')"
  obtains x lg p0 ps idx where
    "preprocess_features f32 d fd = (out, x)" "session d x = Inr (lg, p0 # ps)"
    "argmax p0 = Inr idx" "idx < length (classes d)"
    "predicted_class r = classes d ! idx"
    "confidence r = p0 ! idx"
    "all_probabilities r = p0"
    "is_benign r = (lower (classes d ! idx) \<in> set benign_labels)"
    "is_attack r = (if is_benign r then PyBool False
                    else critical_attack d (classes d ! idx) (p0 ! idx))"
    "is_high_threat r = (\<not> is_benign r \<and> classes d ! idx \<notin> set (low_threat_classes d))"
    "is_ddos r = (\<not> is_benign r \<and> classes d ! idx \<in> set (ddos_classes d))"
    "res_confidence_threshold r = confidence_threshold d"
    "inference_time_ms r = t" "timestamp r = now"
    "d' = d\<lparr>total_predictions := total_predictions d + 1,
            inference_times := inference_times d @ [t],
            attack_detections := attack_detections d + (if truthy (is_attack r) then 1 else 0)\<rparr>"
proof (cases rule: predict_cases[of f32 d fd t now])
  case (raises out e)
  with assms show ?thesis by simp
next
  case (returns out' x lg p0 ps idx)
  note eq = predict_returns[OF returns, of t now]
  from assms eq have o: "out' = out" by simp
  from assms eq have r: "r = \<lparr>timestamp = now,
          predicted_class = classes d ! idx,
          confidence = p0 ! idx,
          is_attack = (if lower (classes d ! idx) \<in> set benign_labels then PyBool False
                       else critical_attack d (classes d ! idx) (p0 ! idx)),
          is_benign = (lower (classes d ! idx) \<in> set benign_labels),
          is_high_threat = (lower (classes d ! idx) \<notin> set benign_labels \<and>
                            classes d ! idx \<notin> set (low_threat_classes d)),
          is_ddos = (lower (classes d ! idx) \<notin> set benign_labels \<and>
                     classes d ! idx \<in> set (ddos_classes d)),
          res_confidence_threshold = confidence_threshold d,
          inference_time_ms = t,
          all_probabilities = p0\<rparr>" by simp
  from assms eq have d': "d' = d\<lparr>total_predictions := total_predictions d + 1,
       inference_times := inference_times d @ [t],
       attack_detections := attack_detections d +
         (if truthy (if lower (classes d ! idx) \<in> set benign_labels then PyBool False
                     else critical_attack d (classes d ! idx) (p0 ! idx)) then 1 else 0)\<rparr>"
    by simp
  show ?thesis
  proof (rule that[of x lg p0 ps idx])
    show "preprocess_features f32 d fd = (out, x)" using returns(1) o by simp
    show "session d x = Inr (lg, p0 # ps)" by (rule returns(2))
    show "argmax p0 = Inr idx" by (rule returns(3))
    show "idx < length (classes d)" by (rule returns(4))
    show "d' = d\<lparr>total_predictions := total_predictions d + 1,
            inference_times := inference_times d @ [t],
            attack_detections := attack_detections d + (if truthy (is_attack r) then 1 else 0)\<rparr>"
      unfolding d' by (simp add: r)
  qed (simp_all add: r)
qed

section \<open>The example detector on its samples\<close>

lemma example_benign_predict:
  "predict (\<lambda>v. v) example_detector benign_sample t now =
     ([],
      Inr \<lparr>timestamp = now, predicted_class = ''BenignTraffic'', confidence = 0.99,
           is_attack = PyBool False, is_benign = True, is_high_threat = False,
           is_ddos = False, res_confidence_threshold = 0.8, inference_time_ms = t,
           all_probabilities = [0.99, 0.01, 0, 0]\<rparr>,
      example_detector\<lparr>total_predictions := 1, inference_times := [t]\<rparr>)"
proof -
  have pp: "preprocess_features (\<lambda>v. v) example_detector benign_sample =
      ([], \<lparr>dtype = Float32, data = [[0.99, 0.01, 0, 0]]\<rparr>)"
    by (simp add: preprocess_features_def features_df_def example_detector_def init_detector_def
        example_names_def feature_values_def dict_get_def benign_sample_def DataFrame_def
        example_scaler_def df_values_def astype_def)
  have s: "session example_detector \<lparr>dtype = Float32, data = [[0.99, 0.01, 0, 0]]\<rparr> =
      Inr ([[0.99, 0.01, 0, 0]], [0.99, 0.01, 0, 0] # [])"
    by (simp add: example_detector_def init_detector_def example_session_def)
  have a: "argmax [0.99, 0.01, 0, 0] = Inr 0"
    by (simp add: argmax_def)
  have l: "0 < length (classes example_detector)"
    by (simp add: example_detector_def init_detector_def example_classes_def)
  have c: "classes example_detector ! 0 = ''BenignTraffic''"
    by (simp add: example_detector_def init_detector_def example_classes_def)
  have lo: "lower ''BenignTraffic'' \<in> set benign_labels"
    by (simp add: lower_def lower_char_def benign_labels_def)
  have dd: "''BenignTraffic'' \<notin> set (ddos_classes example_detector)"
    by (simp add: in_ddos_classes example_detector_def init_detector_def example_classes_def)
  have ca: "critical_attack example_detector ''BenignTraffic'' 0.99 = PyBool True"
    using dd
    by (simp add: critical_attack_def py_and_def py_or_def example_detector_def init_detector_def)
  show ?thesis
    unfolding predict_returns[OF pp s a l] c
    using lo dd ca by simp (simp add: example_detector_def init_detector_def)
qed

lemma example_ddos_predict:
  "predict (\<lambda>v. v) example_detector ddos_sample t now =
     ([],
      Inr \<lparr>timestamp = now, predicted_class = ''DDoS-ICMP_Flood'', confidence = 0.85,
           is_attack = PyBool True, is_benign = False, is_high_threat = True,
           is_ddos = True, res_confidence_threshold = 0.8, inference_time_ms = t,
           all_probabilities = [0.05, 0.85, 0.1, 0]\<rparr>,
      example_detector\<lparr>total_predictions := 1, inference_times := [t], attack_detections := 1\<rparr>)"
proof -
  have pp: "preprocess_features (\<lambda>v. v) example_detector ddos_sample =
      ([], \<lparr>dtype = Float32, data = [[0.05, 0.85, 0.1, 0]]\<rparr>)"
    by (simp add: preprocess_features_def features_df_def example_detector_def init_detector_def
        example_names_def feature_values_def dict_get_def ddos_sample_def DataFrame_def
        example_scaler_def df_values_def astype_def)
  have s: "session example_detector \<lparr>dtype = Float32, data = [[0.05, 0.85, 0.1, 0]]\<rparr> =
      Inr ([[0.05, 0.85, 0.1, 0]], [0.05, 0.85, 0.1, 0] # [])"
    by (simp add: example_detector_def init_detector_def example_session_def)
  have a: "argmax [0.05, 0.85, 0.1, 0] = Inr 1"
    by (simp add: argmax_def)
  have l: "1 < length (classes example_detector)"
    by (simp add: example_detector_def init_detector_def example_classes_def)
  have c: "classes example_detector ! 1 = ''DDoS-ICMP_Flood''"
    by (simp add: example_detector_def init_detector_def example_classes_def)
  have lo: "lower ''DDoS-ICMP_Flood'' \<notin> set benign_labels"
    by (simp add: lower_def lower_char_def benign_labels_def)
  have dd: "''DDoS-ICMP_Flood'' \<in> set (ddos_classes example_detector)"
    by (simp add: in_ddos_classes example_detector_def init_detector_def example_classes_def)
  have ca: "critical_attack example_detector ''DDoS-ICMP_Flood'' 0.85 = PyBool True"
    using dd
    by (simp add: critical_attack_def py_and_def py_or_def example_detector_def init_detector_def)
  show ?thesis
    unfolding predict_returns[OF pp s a l] c
    using lo dd ca by simp (simp add: example_detector_def init_detector_def)
qed


lemma example_sweep_predict:
  "predict (\<lambda>v. v) example_detector sweep_sample t now =
     ([],
      Inr \<lparr>timestamp = now, predicted_class = ''Recon-PingSweep'', confidence = 0.95,
           is_attack = NpBool True, is_benign = False, is_high_threat = False,
           is_ddos = False, res_confidence_threshold = 0.8, inference_time_ms = t,
           all_probabilities = [0.05, 0, 0, 0.95]\<rparr>,
      example_detector\<lparr>total_predictions := 1, inference_times := [t], attack_detections := 1\<rparr>)"
proof -
  have pp: "preprocess_features (\<lambda>v. v) example_detector sweep_sample =
      ([], \<lparr>dtype = Float32, data = [[0.05, 0, 0, 0.95]]\<rparr>)"
    by (simp add: preprocess_features_def features_df_def example_detector_def init_detector_def
        example_names_def feature_values_def dict_get_def sweep_sample_def DataFrame_def
        example_scaler_def df_values_def astype_def)
  have s: "session example_detector \<lparr>dtype = Float32, data = [[0.05, 0, 0, 0.95]]\<rparr> =
      Inr ([[0.05, 0, 0, 0.95]], [0.05, 0, 0, 0.95] # [])"
    by (simp add: example_detector_def init_detector_def example_session_def)
  have a: "argmax [0.05, 0, 0, 0.95] = Inr 3"
    by (simp add: argmax_def)
  have l: "3 < length (classes example_detector)"
    by (simp add: example_detector_def init_detector_def example_classes_def)
  have c: "classes example_detector ! 3 = ''Recon-PingSweep''"
    by (simp add: example_detector_def init_detector_def example_classes_def)
  have lo: "lower ''Recon-PingSweep'' \<notin> set benign_labels"
    by (simp add: lower_def lower_char_def benign_labels_def)
  have dd: "''Recon-PingSweep'' \<notin> set (ddos_classes example_detector)"
    by (simp add: in_ddos_classes example_detector_def init_detector_def example_classes_def)
  have ca: "critical_attack example_detector ''Recon-PingSweep'' 0.95 = NpBool True"
    using dd
    by (simp add: critical_attack_def py_and_def py_or_def example_detector_def init_detector_def)
  show ?thesis
    unfolding predict_returns[OF pp s a l] c
    using lo dd ca by simp (simp add: example_detector_def init_detector_def)
qed

lemma example_weak_predict:
  "predict (\<lambda>v. v) example_detector weak_sample t now =
     ([],
      Inr \<lparr>timestamp = now, predicted_class = ''DDoS-ICMP_Flood'', confidence = 0.6,
           is_attack = NpBool False, is_benign = False, is_high_threat = True,
           is_ddos = True, res_confidence_threshold = 0.8, inference_time_ms = t,
           all_probabilities = [0, 0.6, 0.4, 0]\<rparr>,
      example_detector\<lparr>total_predictions := 1, inference_times := [t]\<rparr>)"
proof -
  have pp: "preprocess_features (\<lambda>v. v) example_detector weak_sample =
      ([], \<lparr>dtype = Float32, data = [[0, 0.6, 0.4, 0]]\<rparr>)"
    by (simp add: preprocess_features_def features_df_def example_detector_def init_detector_def
        example_names_def feature_values_def dict_get_def weak_sample_def DataFrame_def
        example_scaler_def df_values_def astype_def)
  have s: "session example_detector \<lparr>dtype = Float32, data = [[0, 0.6, 0.4, 0]]\<rparr> =
      Inr ([[0, 0.6, 0.4, 0]], [0, 0.6, 0.4, 0] # [])"
    by (simp add: example_detector_def init_detector_def example_session_def)
  have a: "argmax [0, 0.6, 0.4, 0] = Inr 1"
    by (simp add: argmax_def)
  have l: "1 < length (classes example_detector)"
    by (simp add: example_detector_def init_detector_def example_classes_def)
  have c: "classes example_detector ! 1 = ''DDoS-ICMP_Flood''"
    by (simp add: example_detector_def init_detector_def example_classes_def)
  have lo: "lower ''DDoS-ICMP_Flood'' \<notin> set benign_labels"
    by (simp add: lower_def lower_char_def benign_labels_def)
  have dd: "''DDoS-ICMP_Flood'' \<in> set (ddos_classes example_detector)"
    by (simp add: in_ddos_classes example_detector_def init_detector_def example_classes_def)
  have ca: "critical_attack example_detector ''DDoS-ICMP_Flood'' 0.6 = NpBool False"
    using dd
    by (simp add: critical_attack_def py_and_def py_or_def example_detector_def init_detector_def)
  show ?thesis
    unfolding predict_returns[OF pp s a l] c
    using lo dd ca by simp (simp add: example_detector_def init_detector_def)
qed

lemma example_tie_predict:
  "predict (\<lambda>v. v) example_detector tie_sample t now =
     ([],
      Inr \<lparr>timestamp = now, predicted_class = ''DDoS-ICMP_Flood'', confidence = 0.4,
           is_attack = NpBool False, is_benign = False, is_high_threat = True,
           is_ddos = True, res_confidence_threshold = 0.8, inference_time_ms = t,
           all_probabilities = [0.2, 0.4, 0.4, 0]\<rparr>,
      example_detector\<lparr>total_predictions := 1, inference_times := [t]\<rparr>)"
proof -
  have pp: "preprocess_features (\<lambda>v. v) example_detector tie_sample =
      ([], \<lparr>dtype = Float32, data = [[0.2, 0.4, 0.4, 0]]\<rparr>)"
    by (simp add: preprocess_features_def features_df_def example_detector_def init_detector_def
        example_names_def feature_values_def dict_get_def tie_sample_def DataFrame_def
        example_scaler_def df_values_def astype_def)
  have s: "session example_detector \<lparr>dtype = Float32, data = [[0.2, 0.4, 0.4, 0]]\<rparr> =
      Inr ([[0.2, 0.4, 0.4, 0]], [0.2, 0.4, 0.4, 0] # [])"
    by (simp add: example_detector_def init_detector_def example_session_def)
  have a: "argmax [0.2, 0.4, 0.4, 0] = Inr 1"
    by (simp add: argmax_def)
  have l: "1 < length (classes example_detector)"
    by (simp add: example_detector_def init_detector_def example_classes_def)
  have c: "classes example_detector ! 1 = ''DDoS-ICMP_Flood''"
    by (simp add: example_detector_def init_detector_def example_classes_def)
  have lo: "lower ''DDoS-ICMP_Flood'' \<notin> set benign_labels"
    by (simp add: lower_def lower_char_def benign_labels_def)
  have dd: "''DDoS-ICMP_Flood'' \<in> set (ddos_classes example_detector)"
    by (simp add: in_ddos_classes example_detector_def init_detector_def example_classes_def)
  have ca: "critical_attack example_detector ''DDoS-ICMP_Flood'' 0.4 = NpBool False"
    using dd
    by (simp add: critical_attack_def py_and_def py_or_def example_detector_def init_detector_def)
  show ?thesis
    unfolding predict_returns[OF pp s a l] c
    using lo dd ca by simp (simp add: example_detector_def init_detector_def)
qed

lemma unscaled_ddos_predict:
  "predict (\<lambda>v. v) unscaled_detector ddos_sample t now =
     ([NormalizationWarning (ValueError ''X has 4 features, but StandardScaler is expecting 46'')],
      Inr \<lparr>timestamp = now, predicted_class = ''DDoS-ICMP_Flood'', confidence = 0.85,
           is_attack = PyBool True, is_benign = False, is_high_threat = True,
           is_ddos = True, res_confidence_threshold = 0.8, inference_time_ms = t,
           all_probabilities = [0.05, 0.85, 0.1, 0]\<rparr>,
      unscaled_detector\<lparr>total_predictions := 1, inference_times := [t], attack_detections := 1\<rparr>)"
proof -
  have pp: "preprocess_features (\<lambda>v. v) unscaled_detector ddos_sample =
      ([NormalizationWarning (ValueError ''X has 4 features, but StandardScaler is expecting 46'')], \<lparr>dtype = Float32, data = [[0.05, 0.85, 0.1, 0]]\<rparr>)"
    by (simp add: preprocess_features_def features_df_def unscaled_detector_def init_detector_def
        example_names_def feature_values_def dict_get_def ddos_sample_def DataFrame_def
        failing_scaler_def df_values_def astype_def)
  have s: "session unscaled_detector \<lparr>dtype = Float32, data = [[0.05, 0.85, 0.1, 0]]\<rparr> =
      Inr ([[0.05, 0.85, 0.1, 0]], [0.05, 0.85, 0.1, 0] # [])"
    by (simp add: unscaled_detector_def init_detector_def example_session_def)
  have a: "argmax [0.05, 0.85, 0.1, 0] = Inr 1"
    by (simp add: argmax_def)
  have l: "1 < length (classes unscaled_detector)"
    by (simp add: unscaled_detector_def init_detector_def example_classes_def)
  have c: "classes unscaled_detector ! 1 = ''DDoS-ICMP_Flood''"
    by (simp add: unscaled_detector_def init_detector_def example_classes_def)
  have lo: "lower ''DDoS-ICMP_Flood'' \<notin> set benign_labels"
    by (simp add: lower_def lower_char_def benign_labels_def)
  have dd: "''DDoS-ICMP_Flood'' \<in> set (ddos_classes unscaled_detector)"
    by (simp add: in_ddos_classes unscaled_detector_def init_detector_def example_classes_def)
  have ca: "critical_attack unscaled_detector ''DDoS-ICMP_Flood'' 0.85 = PyBool True"
    using dd
    by (simp add: critical_attack_def py_and_def py_or_def unscaled_detector_def init_detector_def)
  show ?thesis
    unfolding predict_returns[OF pp s a l] c
    using lo dd ca by simp (simp add: unscaled_detector_def init_detector_def)
qed

section \<open>The counters of a detector\<close>

lemma predict_state:
  assumes "predict f32 d fd t now = (out, res, d')"
  shows "(\<exists>e. res = Inl e \<and> d' = d) \<or>
         (\<exists>r. res = Inr r \<and>
            d' = d\<lparr>total_predictions := total_predictions d + 1,
                   inference_times := inference_times d @ [t],
                   attack_detections :=
                     attack_detections d + (if truthy (is_attack r) then 1 else 0)\<rparr>)"
proof (cases res)
  case (Inl e)
  have "d' = d"
  proof (cases rule: predict_cases[of f32 d fd t now])
    case (raises out' e')
    with assms show ?thesis by simp
  next
    case (returns out' x lg p0 ps idx)
    from predict_returns[OF returns, of t now] assms Inl show ?thesis by simp
  qed
  with Inl show ?thesis by simp
next
  case (Inr r)
  with assms have "predict f32 d fd t now = (out, Inr r, d')" by simp
  then have "d' = d\<lparr>total_predictions := total_predictions d + 1,
                   inference_times := inference_times d @ [t],
                   attack_detections :=
                     attack_detections d + (if truthy (is_attack r) then 1 else 0)\<rparr>"
    by (rule predict_Inr)
  with Inr show ?thesis by simp
qed

lemma detector_step_counters:
  assumes "detector_step d d'"
  shows "total_predictions d \<le> total_predictions d' \<and>
         attack_detections d \<le> attack_detections d' \<and>
         prefix (inference_times d) (inference_times d')"
  using assms
proof cases
  case (step_predict f32 features_dict inference_time now out res)
  from predict_state[OF this] show ?thesis by auto
qed simp_all

lemma detector_steps_counters:
  assumes "detector_step\<^sup>*\<^sup>* d d'"
  shows "total_predictions d \<le> total_predictions d' \<and>
         attack_detections d \<le> attack_detections d' \<and>
         prefix (inference_times d) (inference_times d')"
  using assms
proof (induction rule: rtranclp_induct)
  case base
  show ?case by simp
next
  case (step y z)
  from detector_step_counters[OF step.hyps(2)] step.IH show ?case
    by (auto intro: prefix_order.trans)
qed

lemma reachable_counters:
  assumes "reachable d"
  shows "length (inference_times d) = total_predictions d \<and>
         attack_detections d \<le> total_predictions d"
  using assms
proof induction
  case (reachable_init sc se names cls threshold)
  show ?case by (simp add: init_detector_def)
next
  case (reachable_predict d f32 features_dict inference_time now out res d')
  from predict_state[OF reachable_predict.hyps(2)] reachable_predict.IH show ?case by auto
qed

lemma mon_detector_process_sample:
  "mon_detector (process_sample f32 m fd t now) =
     snd (snd (predict f32 (mon_detector m) fd t now))"
proof -
  obtain out res d' where p: "predict f32 (mon_detector m) fd t now = (out, res, d')"
    by (cases "predict f32 (mon_detector m) fd t now") auto
  show ?thesis
  proof (cases res)
    case (Inl e)
    with p show ?thesis by (simp add: process_sample_def except_handler_def save_result_def)
  next
    case (Inr r)
    with p show ?thesis
      by (simp add: process_sample_def except_handler_def save_result_def log_detection_def
          task_done_def Let_def split: sum.splits)
  qed
qed

section \<open>The statistics\<close>

lemma get_statistics_empty: "inference_times d = [] \<Longrightarrow> get_statistics d = Inr None"
  by (simp add: get_statistics_def)

lemma get_statistics_nonempty:
  assumes "inference_times d \<noteq> []"
  shows "\<exists>mx mn. get_statistics d =
     Inr (Some \<lparr>stat_total_predictions = total_predictions d,
                stat_attack_detections = attack_detections d,
                attack_rate = (if 0 < total_predictions d
                               then real (attack_detections d) / real (total_predictions d)
                               else 0),
                avg_inference_time_ms =
                  Finite (sum_list (inference_times d) / real (length (inference_times d))),
                max_inference_time_ms = mx,
                min_inference_time_ms = mn,
                throughput_per_second =
                  np_rdiv 1000
                    (Finite (sum_list (inference_times d) / real (length (inference_times d)))),
                stat_confidence_threshold = confidence_threshold d\<rparr>)"
proof -
  from assms obtain x rest where xs: "inference_times d = x # rest"
    by (cases "inference_times d") auto
  show ?thesis
    by (simp add: get_statistics_def xs py_truediv_def np_max_def np_min_def np_mean_def)
qed

section \<open>The frame that preprocess_features builds\<close>

lemma update_fresh: "k \<notin> fst ` set al \<Longrightarrow> AList.update k v al = al @ [(k, v)]"
  by (induction al) auto

lemma set_update_subset: "set (AList.update k v al) \<subseteq> insert (k, v) (set al)"
  by (induction al) auto

lemma fill_distinct_names:
  "distinct names \<Longrightarrow> set names \<inter> fst ` set acc = {} \<Longrightarrow>
   foldl (\<lambda>fv n. AList.update n (g n) fv) acc names = acc @ map (\<lambda>n. (n, g n)) names"
proof (induction names arbitrary: acc)
  case Nil
  show ?case by simp
next
  case (Cons n names)
  from Cons.prems have fresh: "n \<notin> fst ` set acc" by auto
  have "foldl (\<lambda>fv n. AList.update n (g n) fv) (acc @ [(n, g n)]) names =
        (acc @ [(n, g n)]) @ map (\<lambda>n. (n, g n)) names"
    using Cons.prems by (intro Cons.IH) auto
  then show ?case by (simp add: update_fresh[OF fresh])
qed

lemma fill_keys:
  "fst ` set (foldl (\<lambda>fv n. AList.update n (g n) fv) acc names) = fst ` set acc \<union> set names"
  by (induction names arbitrary: acc) (auto simp: dom_update)

lemma fill_distinct_keys:
  "distinct (map fst acc) \<Longrightarrow>
   distinct (map fst (foldl (\<lambda>fv n. AList.update n (g n) fv) acc names))"
  by (induction names arbitrary: acc) (auto simp: distinct_update)

lemma fill_values:
  "\<forall>p \<in> set acc. snd p = g (fst p) \<Longrightarrow>
   \<forall>p \<in> set (foldl (\<lambda>fv n. AList.update n (g n) fv) acc names). snd p = g (fst p)"
proof (induction names arbitrary: acc)
  case Nil
  then show ?case by simp
next
  case (Cons n names)
  have "\<forall>p \<in> set (AList.update n (g n) acc). snd p = g (fst p)"
    using Cons.prems set_update_subset[of n "g n" acc] by auto
  from Cons.IH[OF this] show ?case by simp
qed

lemma features_df_columns:
  "distinct (columns (features_df d fd)) \<and>
   set (columns (features_df d fd)) = set (feature_names d) \<and>
   length (columns (features_df d fd)) = card (set (feature_names d))"
proof -
  let ?fv = "feature_values (feature_names d) fd"
  have dist: "distinct (map fst ?fv)"
    unfolding feature_values_def by (rule fill_distinct_keys) simp
  have keys: "set (map fst ?fv) = set (feature_names d)"
    unfolding feature_values_def using fill_keys[of "\<lambda>n. dict_get fd n 0" "[]" "feature_names d"]
    by simp
  from dist keys have "length (map fst ?fv) = card (set (feature_names d))"
    using distinct_card by fastforce
  with dist keys show ?thesis by (simp add: features_df_def DataFrame_def)
qed

lemma features_df_row:
  "df_rows (features_df d fd) = [map (\<lambda>n. dict_get fd n 0) (columns (features_df d fd))]"
proof -
  let ?fv = "feature_values (feature_names d) fd"
  have "\<forall>p \<in> set ?fv. snd p = dict_get fd (fst p) 0"
    unfolding feature_values_def by (rule fill_values) simp
  then have "map snd ?fv = map (\<lambda>n. dict_get fd n 0) (map fst ?fv)"
    by (induction ?fv) auto
  then show ?thesis by (simp add: features_df_def DataFrame_def)
qed

lemma features_df_distinct_names:
  "distinct (feature_names d) \<Longrightarrow> columns (features_df d fd) = feature_names d"
  using fill_distinct_names[of "feature_names d" "[]" "\<lambda>n. dict_get fd n 0"]
  by (simp add: features_df_def DataFrame_def feature_values_def comp_def)

lemma preprocess_fallback:
  "scaler d (features_df d fd) = Inl e \<Longrightarrow>
   preprocess_features f32 d fd =
     ([NormalizationWarning e],
      \<lparr>dtype = Float32,
       data = [map (\<lambda>n. f32 (dict_get fd n 0)) (columns (features_df d fd))]\<rparr>)"
  by (simp add: preprocess_features_def astype_def df_values_def features_df_row comp_def)

lemma preprocess_scaled:
  "scaler d (features_df d fd) = Inr a \<Longrightarrow> preprocess_features f32 d fd = ([], astype f32 a)"
  by (simp add: preprocess_features_def)

section \<open>The routing of a result\<close>

lemma process_sample_returned:
  assumes "predict f32 (mon_detector m) fd t now = (out, Inr r, d')"
    and "0 < unfinished_tasks m"
  shows "results (process_sample f32 m fd t now) = results m @ [r]"
    and "report (process_sample f32 m fd t now) =
       report m @
       (if truthy (is_attack r) then
          (case json_dumps r of
             Inr line \<Rightarrow> [CriticalAttack (predicted_class r) (confidence r)]
           | Inl e \<Rightarrow> [CriticalAttack (predicted_class r) (confidence r), ProcessingError e])
        else if is_benign r then [NormalTraffic (predicted_class r) (confidence r)]
        else if confidence_threshold d' \<le> confidence r
          then [SuspiciousActivity (predicted_class r) (confidence r)]
        else [LowRisk (predicted_class r) (confidence r)])"
    and "log_file (process_sample f32 m fd t now) =
       log_file m @
       (if truthy (is_attack r) then (case json_dumps r of Inr line \<Rightarrow> [line] | Inl e \<Rightarrow> [])
        else [])"
    and "unfinished_tasks (process_sample f32 m fd t now) =
       (if truthy (is_attack r) \<and> (\<exists>e. json_dumps r = Inl e) then unfinished_tasks m
        else unfinished_tasks m - 1)"
  using assms
  by (auto simp add: process_sample_def except_handler_def save_result_def log_detection_def
      task_done_def Let_def split: sum.splits)

section \<open>The claims about the detector and the monitor\<close>



text \<open>
  Claim C2. When the class of a returned prediction, lowercased, is one of
  \<^verbatim>\<open>benigntraffic\<close>, \<^verbatim>\<open>benign\<close>, \<^verbatim>\<open>normal\<close>, the result has \<open>is_benign\<close> true and
  \<open>is_attack\<close>, \<open>is_high_threat\<close> and \<open>is_ddos\<close> false, whatever the confidence is: the
  verdict is the constant \<^verbatim>\<open>False\<close> of line 93, no criterion is applied. Hence in every
  result \<open>is_benign\<close> implies that \<open>is_attack\<close> is false.
\<close>

theorem benign_short_circuit:
  assumes "predict f32 d fd t now = (out, Inr r, d')"
  shows "(lower (predicted_class r) \<in> set [''benigntraffic'', ''benign'', ''normal''] \<longrightarrow>
            is_benign r \<and> is_attack r = PyBool False \<and> \<not> truthy (is_attack r) \<and>
            \<not> is_high_threat r \<and> \<not> is_ddos r \<and>
            attack_detections d' = attack_detections d) \<and>
         (is_benign r \<longrightarrow> \<not> truthy (is_attack r))"
proof -
  from assms obtain x lg p0 ps idx where
    cls: "predicted_class r = classes d ! idx"
    and ben: "is_benign r = (lower (classes d ! idx) \<in> set benign_labels)"
    and att: "is_attack r = (if is_benign r then PyBool False
                    else critical_attack d (classes d ! idx) (p0 ! idx))"
    and ht: "is_high_threat r = (\<not> is_benign r \<and> classes d ! idx \<notin> set (low_threat_classes d))"
    and dd: "is_ddos r = (\<not> is_benign r \<and> classes d ! idx \<in> set (ddos_classes d))"
    and d': "d' = d\<lparr>total_predictions := total_predictions d + 1,
            inference_times := inference_times d @ [t],
            attack_detections := attack_detections d + (if truthy (is_attack r) then 1 else 0)\<rparr>"
    by (rule predict_Inr)
  have shortcut: "is_benign r \<longrightarrow> is_attack r = PyBool False \<and> \<not> truthy (is_attack r) \<and>
      \<not> is_high_threat r \<and> \<not> is_ddos r \<and> attack_detections d' = attack_detections d"
    using att ht dd d' by simp
  have "lower (predicted_class r) \<in> set [''benigntraffic'', ''benign'', ''normal''] \<longrightarrow>
      is_benign r"
    using ben cls by (simp add: benign_labels_def)
  with shortcut show ?thesis by blast
qed

theorem benign_short_circuit_witness:
  "\<exists>out r d'.
     predict (\<lambda>v. v) example_detector benign_sample 12 ''2025-01-01T00:00:00'' = (out, Inr r, d') \<and>
     lower (predicted_class r) \<in> set [''benigntraffic'', ''benign'', ''normal''] \<and>
     confidence r = 0.99 \<and> is_benign r \<and> \<not> truthy (is_attack r) \<and>
     \<not> is_high_threat r \<and> \<not> is_ddos r"
proof -
  note run = example_benign_predict[of 12 "''2025-01-01T00:00:00''"]
  have lo: "lower ''BenignTraffic'' = ''benigntraffic''"
    by (simp add: lower_def lower_char_def)
  from benign_short_circuit[OF run] run lo show ?thesis
    by simp
qed

text \<open>
  Claim C3, as the code has it. \<open>get_statistics\<close> never raises a division error. While
  no latency is recorded it returns the empty dict of line 134: no attack rate is
  reported and no throughput is computed. For a detector that only \<open>predict\<close> has
  changed this is the case exactly when \<open>total_predictions\<close> is 0. Otherwise it reports
  \<open>attack_detections / total_predictions\<close> as the attack rate when \<open>total_predictions\<close>
  is positive, 0 when it is 0, and 1000 divided by the mean latency as the throughput.
\<close>

theorem statistics_guarded:
  "(\<forall>e. get_statistics d \<noteq> Inl e) \<and>
   (inference_times d = [] \<longrightarrow> get_statistics d = Inr None) \<and>
   (inference_times d \<noteq> [] \<longrightarrow>
      (\<exists>s. get_statistics d = Inr (Some s) \<and>
           attack_rate s =
             (if 0 < total_predictions d
              then real (attack_detections d) / real (total_predictions d) else 0) \<and>
           avg_inference_time_ms s =
             Finite (sum_list (inference_times d) / real (length (inference_times d))) \<and>
           throughput_per_second s = np_rdiv 1000 (avg_inference_time_ms s))) \<and>
   (reachable d \<and> total_predictions d = 0 \<longrightarrow> get_statistics d = Inr None) \<and>
   (reachable d \<and> 0 < total_predictions d \<longrightarrow>
      (\<exists>s. get_statistics d = Inr (Some s) \<and>
           attack_rate s = real (attack_detections d) / real (total_predictions d)))"
proof -
  have nonempty: "\<exists>s. get_statistics d = Inr (Some s) \<and>
           attack_rate s =
             (if 0 < total_predictions d
              then real (attack_detections d) / real (total_predictions d) else 0) \<and>
           avg_inference_time_ms s =
             Finite (sum_list (inference_times d) / real (length (inference_times d))) \<and>
           throughput_per_second s = np_rdiv 1000 (avg_inference_time_ms s)"
    if "inference_times d \<noteq> []"
  proof -
    from get_statistics_nonempty[OF that] obtain mx mn where
      "get_statistics d =
         Inr (Some \<lparr>stat_total_predictions = total_predictions d,
                stat_attack_detections = attack_detections d,
                attack_rate = (if 0 < total_predictions d
                               then real (attack_detections d) / real (total_predictions d)
                               else 0),
                avg_inference_time_ms =
                  Finite (sum_list (inference_times d) / real (length (inference_times d))),
                max_inference_time_ms = mx,
                min_inference_time_ms = mn,
                throughput_per_second =
                  np_rdiv 1000
                    (Finite (sum_list (inference_times d) / real (length (inference_times d)))),
                stat_confidence_threshold = confidence_threshold d\<rparr>)"
      by blast
    then show ?thesis by simp
  qed
  have never: "get_statistics d \<noteq> Inl e" for e
  proof (cases "inference_times d = []")
    case True
    then show ?thesis by (simp add: get_statistics_empty)
  next
    case False
    from nonempty[OF this] show ?thesis by auto
  qed
  have zero: "get_statistics d = Inr None" if "reachable d" "total_predictions d = 0"
  proof -
    from reachable_counters[OF that(1)] that(2) have "inference_times d = []" by simp
    then show ?thesis by (rule get_statistics_empty)
  qed
  have positive: "\<exists>s. get_statistics d = Inr (Some s) \<and>
           attack_rate s = real (attack_detections d) / real (total_predictions d)"
    if "reachable d" "0 < total_predictions d"
  proof -
    from reachable_counters[OF that(1)] that(2) have "inference_times d \<noteq> []" by auto
    from nonempty[OF this] that(2) show ?thesis by auto
  qed
  from never nonempty zero positive show ?thesis
    by (simp add: get_statistics_empty)
qed

theorem statistics_guarded_witness:
  "reachable example_detector \<and> total_predictions example_detector = 0 \<and>
   inference_times example_detector = [] \<and> get_statistics example_detector = Inr None \<and>
   (\<exists>d s. reachable d \<and> total_predictions d = 1 \<and> attack_detections d = 1 \<and>
      inference_times d = [12] \<and> get_statistics d = Inr (Some s) \<and> attack_rate s = 1 \<and>
      throughput_per_second s = Finite (1000 / 12))"
proof -
  let ?d = "example_detector\<lparr>total_predictions := 1, inference_times := [12],
              attack_detections := 1\<rparr>"
  have r0: "reachable example_detector"
    unfolding example_detector_def by (rule reachable_init)
  have r1: "reachable ?d"
    using r0 example_ddos_predict[of 12 "''2025-01-01T00:00:00''"] by (rule reachable_predict)
  have f0: "total_predictions example_detector = 0 \<and> inference_times example_detector = []"
    by (simp add: example_detector_def init_detector_def)
  have f1: "total_predictions ?d = 1 \<and> attack_detections ?d = 1 \<and> inference_times ?d = [12]"
    by simp
  from statistics_guarded[of example_detector] r0 f0
  have a: "get_statistics example_detector = Inr None" by simp
  from statistics_guarded[of ?d] r1 f1
  have "\<exists>s. get_statistics ?d = Inr (Some s) \<and> attack_rate s = 1 \<and>
      throughput_per_second s = Finite (1000 / 12)"
    by auto
  with r1 f1 have b: "\<exists>d s. reachable d \<and> total_predictions d = 1 \<and> attack_detections d = 1 \<and>
      inference_times d = [12] \<and> get_statistics d = Inr (Some s) \<and> attack_rate s = 1 \<and>
      throughput_per_second s = Finite (1000 / 12)"
    by blast
  from r0 f0 a b show ?thesis by simp
qed

text \<open>
  The claim as the specification states it fails on a detector that has made no
  prediction: \<open>total_predictions\<close> is 0 and the answer is the empty dict, which reports
  no attack rate at all.
\<close>

theorem statistics_of_fresh_detector:
  "total_predictions example_detector = 0 \<and>
   get_statistics example_detector = Inr None \<and>
   \<not> (\<exists>s. get_statistics example_detector = Inr (Some s) \<and> attack_rate s = 0)"
  by (simp add: get_statistics_def example_detector_def init_detector_def)



text \<open>
  Claim C5 says that a result with \<open>is_attack\<close> true is written to the report stream and
  to the alert log, and that the alert log gets a line exactly for such a result. The
  run below is the monitor's turn on a sample that the model classes as
  \<^verbatim>\<open>Recon-PingSweep\<close> with confidence 0.95, under the default threshold 0.8. The class is
  a low-threat class and no DDoS label, so the verdict is the value of
  \<^verbatim>\<open>confidence > 0.9\<close> of line 111, a \<^verbatim>\<open>numpy.bool_\<close>. The result is an attack and the
  critical line reaches the report stream, but \<^verbatim>\<open>json.dumps\<close> in \<open>log_detection\<close> raises
  on that value: nothing is appended to the alert log, the handler of line 256 reports
  the error, and \<^verbatim>\<open>task_done\<close> is not called, so the sample stays counted as unfinished.
\<close>

theorem override_attack_not_logged:
  "(\<exists>r. results (process_data_stream_turn (\<lambda>v. v)
                 (add_data (init_monitor example_detector) sweep_sample) 12
                 ''2025-01-01T00:00:00'') = [r] \<and>
        predicted_class r = ''Recon-PingSweep'' \<and> confidence r = 0.95 \<and>
        truthy (is_attack r) \<and> is_attack r = NpBool True) \<and>
   report (process_data_stream_turn (\<lambda>v. v)
             (add_data (init_monitor example_detector) sweep_sample) 12
             ''2025-01-01T00:00:00'') =
     [CriticalAttack ''Recon-PingSweep'' 0.95,
      ProcessingError (TypeError ''Object of type bool_ is not JSON serializable'')] \<and>
   log_file (process_data_stream_turn (\<lambda>v. v)
               (add_data (init_monitor example_detector) sweep_sample) 12
               ''2025-01-01T00:00:00'') = [] \<and>
   unfinished_tasks (process_data_stream_turn (\<lambda>v. v)
               (add_data (init_monitor example_detector) sweep_sample) 12
               ''2025-01-01T00:00:00'') = 1"
proof -
  let ?m = "(add_data (init_monitor example_detector) sweep_sample)\<lparr>data_queue := []\<rparr>"
  have turn: "process_data_stream_turn (\<lambda>v. v)
      (add_data (init_monitor example_detector) sweep_sample) 12 ''2025-01-01T00:00:00'' =
      process_sample (\<lambda>v. v) ?m sweep_sample 12 ''2025-01-01T00:00:00''"
    by (simp add: process_data_stream_turn_def add_data_def init_monitor_def)
  have run: "predict (\<lambda>v. v) (mon_detector ?m) sweep_sample 12 ''2025-01-01T00:00:00'' =
     ([],
      Inr \<lparr>timestamp = ''2025-01-01T00:00:00'', predicted_class = ''Recon-PingSweep'',
           confidence = 0.95, is_attack = NpBool True, is_benign = False,
           is_high_threat = False, is_ddos = False, res_confidence_threshold = 0.8,
           inference_time_ms = 12, all_probabilities = [0.05, 0, 0, 0.95]\<rparr>,
      example_detector\<lparr>total_predictions := 1, inference_times := [12],
        attack_detections := 1\<rparr>)"
    using example_sweep_predict[of 12 "''2025-01-01T00:00:00''"]
    by (simp add: init_monitor_def add_data_def)
  have pending: "0 < unfinished_tasks ?m"
    by (simp add: add_data_def)
  show ?thesis
    unfolding turn process_sample_returned[OF run pending]
    by (simp add: json_dumps_def init_monitor_def add_data_def)
qed

text \<open>
  Claim C6. For every feature mapping the normalizer builds a frame of one row that has
  one column for each required feature name, in the order of their first occurrence in
  \<open>feature_names\<close> (the required order itself when no name is repeated), and whose entry
  for a name is the value of the mapping, or 0.0 when the name is absent. The array it
  returns has the 32-bit type: when the scaler raises it is that row, each entry rounded
  to 32 bits; when the scaler returns an array it is that array rounded, with the
  shape the scaler gave it.
\<close>

theorem normalizer_row:
  assumes "preprocess_features f32 d fd = (out, x)"
  shows "dtype x = Float32 \<and>
         distinct (columns (features_df d fd)) \<and>
         set (columns (features_df d fd)) = set (feature_names d) \<and>
         length (columns (features_df d fd)) = card (set (feature_names d)) \<and>
         (distinct (feature_names d) \<longrightarrow> columns (features_df d fd) = feature_names d) \<and>
         df_rows (features_df d fd) =
           [map (\<lambda>n. case fd n of None \<Rightarrow> 0 | Some v \<Rightarrow> v) (columns (features_df d fd))] \<and>
         (\<forall>e. scaler d (features_df d fd) = Inl e \<longrightarrow>
            data x = [map (\<lambda>n. f32 (case fd n of None \<Rightarrow> 0 | Some v \<Rightarrow> v))
                        (columns (features_df d fd))] \<and>
            map length (data x) = [card (set (feature_names d))]) \<and>
         (\<forall>a. scaler d (features_df d fd) = Inr a \<longrightarrow>
            x = astype f32 a \<and> map length (data x) = map length (data a))"
proof -
  note cols = features_df_columns[of d fd]
  have row: "df_rows (features_df d fd) =
      [map (\<lambda>n. case fd n of None \<Rightarrow> 0 | Some v \<Rightarrow> v) (columns (features_df d fd))]"
    using features_df_row[of d fd] by (simp add: dict_get_def)
  have order: "distinct (feature_names d) \<longrightarrow> columns (features_df d fd) = feature_names d"
    by (simp add: features_df_distinct_names)
  have fallback: "data x = [map (\<lambda>n. f32 (case fd n of None \<Rightarrow> 0 | Some v \<Rightarrow> v))
                        (columns (features_df d fd))] \<and>
            map length (data x) = [card (set (feature_names d))]"
    if "scaler d (features_df d fd) = Inl e" for e
    using preprocess_fallback[OF that, of f32] assms cols by (auto simp: dict_get_def)
  have scaled: "x = astype f32 a \<and> map length (data x) = map length (data a)"
    if "scaler d (features_df d fd) = Inr a" for a
    using preprocess_scaled[OF that, of f32] assms by (auto simp: astype_def comp_def)
  have ty: "dtype x = Float32"
    using assms by (auto simp: preprocess_features_def astype_def split: sum.splits)
  from ty cols order row fallback scaled show ?thesis by blast
qed

theorem normalizer_row_witness:
  "\<exists>out x.
     preprocess_features (\<lambda>v. v) example_detector sweep_sample = (out, x) \<and>
     distinct (feature_names example_detector) \<and>
     feature_names example_detector = [''f0'', ''f1'', ''f2'', ''f3''] \<and>
     sweep_sample ''f1'' = None \<and> sweep_sample ''f3'' = Some 0.95 \<and>
     scaler example_detector (features_df example_detector sweep_sample) =
       Inr \<lparr>dtype = Float64, data = [[0.05, 0, 0, 0.95]]\<rparr> \<and>
     columns (features_df example_detector sweep_sample) = [''f0'', ''f1'', ''f2'', ''f3''] \<and>
     df_rows (features_df example_detector sweep_sample) = [[0.05, 0, 0, 0.95]] \<and>
     dtype x = Float32 \<and> data x = [[0.05, 0, 0, 0.95]]"
proof -
  have names: "feature_names example_detector = [''f0'', ''f1'', ''f2'', ''f3'']"
    by (simp add: example_detector_def init_detector_def example_names_def)
  have sample: "sweep_sample ''f0'' = Some 0.05 \<and> sweep_sample ''f1'' = None \<and>
      sweep_sample ''f2'' = None \<and> sweep_sample ''f3'' = Some 0.95"
    by (simp add: sweep_sample_def)
  have sc: "scaler example_detector (features_df example_detector sweep_sample) =
      Inr (df_values (features_df example_detector sweep_sample))"
    by (simp add: example_detector_def init_detector_def example_scaler_def)
  have pp: "preprocess_features (\<lambda>v. v) example_detector sweep_sample =
      ([], astype (\<lambda>v. v) (df_values (features_df example_detector sweep_sample)))"
    using sc by (rule preprocess_scaled)
  from normalizer_row[OF pp] names sample sc pp show ?thesis
    by (simp add: astype_def df_values_def)
qed

text \<open>
  Claim C7. A call of \<open>predict\<close> that returns adds exactly 1 to \<open>total_predictions\<close>,
  appends exactly one latency to \<open>inference_times\<close>, and adds 1 to \<open>attack_detections\<close>
  if the result has \<open>is_attack\<close> true and 0 otherwise. No operation resets the counters:
  over any sequence of calls of the detector's methods the two counters do not decrease
  and the latencies recorded so far stay a prefix of the list; the monitor reaches the
  detector through \<open>predict\<close> only.
\<close>

theorem counters_per_prediction:
  "(predict f32 d fd t now = (out, Inr r, d') \<longrightarrow>
      total_predictions d' = total_predictions d + 1 \<and>
      inference_times d' = inference_times d @ [t] \<and>
      attack_detections d' =
        attack_detections d + (if truthy (is_attack r) then 1 else 0)) \<and>
   (detector_step\<^sup>*\<^sup>* d d'' \<longrightarrow>
      total_predictions d \<le> total_predictions d'' \<and>
      attack_detections d \<le> attack_detections d'' \<and>
      prefix (inference_times d) (inference_times d'')) \<and>
   detector_step (mon_detector m) (mon_detector (process_sample f32 m fd t now))"
proof (intro conjI impI)
  assume "predict f32 d fd t now = (out, Inr r, d')"
  then have d': "d' = d\<lparr>total_predictions := total_predictions d + 1,
            inference_times := inference_times d @ [t],
            attack_detections := attack_detections d + (if truthy (is_attack r) then 1 else 0)\<rparr>"
    by (rule predict_Inr)
  show "total_predictions d' = total_predictions d + 1" by (simp add: d')
  show "inference_times d' = inference_times d @ [t]" by (simp add: d')
  show "attack_detections d' = attack_detections d + (if truthy (is_attack r) then 1 else 0)"
    by (simp add: d')
next
  assume steps: "detector_step\<^sup>*\<^sup>* d d''"
  from detector_steps_counters[OF steps]
  show "total_predictions d \<le> total_predictions d''"
    and "attack_detections d \<le> attack_detections d''"
    and "prefix (inference_times d) (inference_times d'')" by simp_all
next
  obtain out' res d1 where p: "predict f32 (mon_detector m) fd t now = (out', res, d1)"
    by (cases "predict f32 (mon_detector m) fd t now") auto
  then have "detector_step (mon_detector m) d1" by (rule step_predict)
  with p show "detector_step (mon_detector m) (mon_detector (process_sample f32 m fd t now))"
    by (simp add: mon_detector_process_sample)
qed

theorem counters_per_prediction_witness:
  "\<exists>out r d'.
     predict (\<lambda>v. v) example_detector ddos_sample 12 ''2025-01-01T00:00:00'' = (out, Inr r, d') \<and>
     truthy (is_attack r) \<and>
     total_predictions example_detector = 0 \<and> total_predictions d' = 1 \<and>
     inference_times d' = [12] \<and>
     attack_detections example_detector = 0 \<and> attack_detections d' = 1 \<and>
     detector_step\<^sup>*\<^sup>* example_detector d'"
proof -
  note run = example_ddos_predict[of 12 "''2025-01-01T00:00:00''"]
  have steps: "detector_step\<^sup>*\<^sup>* example_detector
      (example_detector\<lparr>total_predictions := 1, inference_times := [12],
         attack_detections := 1\<rparr>)"
    using step_predict[OF run] by (rule r_into_rtranclp)
  have init: "total_predictions example_detector = 0 \<and> attack_detections example_detector = 0
      \<and> inference_times example_detector = []"
    by (simp add: example_detector_def init_detector_def)
  from counters_per_prediction[of "\<lambda>v. v" example_detector ddos_sample 12
      "''2025-01-01T00:00:00''" "[]" _ _ _ "init_monitor example_detector"] run steps init
  show ?thesis by simp
qed

text \<open>
  Claim C8. In every returned prediction, \<open>predicted_class\<close> is \<open>classes\<close> at the argmax
  of the first row of probabilities that inference produced, and \<open>confidence\<close> is the
  maximum of that row; when several indices hold the maximum the first one is chosen:
  every entry before the chosen index is strictly smaller.
\<close>

theorem predicted_class_is_argmax:
  assumes "predict f32 d fd t now = (out, Inr r, d')"
  shows "\<exists>idx x lg ps.
           preprocess_features f32 d fd = (out, x) \<and>
           session d x = Inr (lg, all_probabilities r # ps) \<and>
           argmax (all_probabilities r) = Inr idx \<and>
           idx < length (all_probabilities r) \<and> idx < length (classes d) \<and>
           predicted_class r = classes d ! idx \<and>
           confidence r = all_probabilities r ! idx \<and>
           confidence r = Max (set (all_probabilities r)) \<and>
           (\<forall>j < idx. all_probabilities r ! j < confidence r)"
proof -
  from assms obtain x lg p0 ps idx where
    pp: "preprocess_features f32 d fd = (out, x)" and s: "session d x = Inr (lg, p0 # ps)"
    and a: "argmax p0 = Inr idx" and idx: "idx < length (classes d)"
    and cls: "predicted_class r = classes d ! idx" and conf: "confidence r = p0 ! idx"
    and probs: "all_probabilities r = p0"
    by (rule predict_Inr)
  from argmax_first_max[OF a] have "idx < length p0" and "\<forall>j < idx. p0 ! j < p0 ! idx"
    by simp_all
  moreover from argmax_Max[OF a] have "p0 ! idx = Max (set p0)" .
  ultimately show ?thesis
    using pp s a idx cls conf probs by auto
qed

theorem predicted_class_is_argmax_witness:
  "\<exists>out r d'.
     predict (\<lambda>v. v) example_detector tie_sample 12 ''2025-01-01T00:00:00'' = (out, Inr r, d') \<and>
     all_probabilities r = [0.2, 0.4, 0.4, 0] \<and>
     argmax (all_probabilities r) = Inr 1 \<and>
     predicted_class r = classes example_detector ! 1 \<and> confidence r = 0.4"
proof -
  note run = example_tie_predict[of 12 "''2025-01-01T00:00:00''"]
  have a: "argmax [0.2, 0.4, 0.4, 0] = Inr 1" by (simp add: argmax_def)
  have c: "classes example_detector ! 1 = ''DDoS-ICMP_Flood''"
    by (simp add: example_detector_def init_detector_def example_classes_def)
  from predicted_class_is_argmax[OF run] run a c show ?thesis
    by simp
qed

text \<open>
  Claim C9. When the scaler raises, \<open>preprocess_features\<close> does not raise: it prints the
  warning and returns the unscaled row of the frame, converted to the 32-bit type.
  \<open>predict\<close> goes on with that array: the session is run on it, a failure of the session
  is the only thing that is then raised, and when the session answers with a row of
  probabilities, one for each class, the prediction returns a result.
\<close>

theorem scaler_failure_falls_back:
  assumes "scaler d (features_df d fd) = Inl e"
  shows "preprocess_features f32 d fd =
           ([NormalizationWarning e], astype f32 (df_values (features_df d fd))) \<and>
         astype f32 (df_values (features_df d fd)) =
           \<lparr>dtype = Float32,
            data = [map (\<lambda>n. f32 (case fd n of None \<Rightarrow> 0 | Some v \<Rightarrow> v))
                      (columns (features_df d fd))]\<rparr> \<and>
         (\<forall>e'. session d (astype f32 (df_values (features_df d fd))) = Inl e' \<longrightarrow>
            predict f32 d fd t now = ([NormalizationWarning e], Inl e', d)) \<and>
         (\<forall>lg p0 ps.
            session d (astype f32 (df_values (features_df d fd))) = Inr (lg, p0 # ps) \<and>
            p0 \<noteq> [] \<and> length p0 \<le> length (classes d) \<longrightarrow>
            (\<exists>r d'. predict f32 d fd t now = ([NormalizationWarning e], Inr r, d') \<and>
                all_probabilities r = p0 \<and>
                total_predictions d' = total_predictions d + 1))"
proof -
  let ?raw = "astype f32 (df_values (features_df d fd))"
  have pp: "preprocess_features f32 d fd = ([NormalizationWarning e], ?raw)"
    using assms by (simp add: preprocess_features_def)
  have raw: "?raw = \<lparr>dtype = Float32,
            data = [map (\<lambda>n. f32 (case fd n of None \<Rightarrow> 0 | Some v \<Rightarrow> v))
                      (columns (features_df d fd))]\<rparr>"
    using preprocess_fallback[OF assms, of f32] pp by (simp add: dict_get_def)
  have raises: "predict f32 d fd t now = ([NormalizationWarning e], Inl e', d)"
    if "session d ?raw = Inl e'" for e'
    using pp that by (rule predict_session_raises)
  have returns: "\<exists>r d'. predict f32 d fd t now = ([NormalizationWarning e], Inr r, d') \<and>
                all_probabilities r = p0 \<and>
                total_predictions d' = total_predictions d + 1"
    if s: "session d ?raw = Inr (lg, p0 # ps)" and ne: "p0 \<noteq> []"
      and len: "length p0 \<le> length (classes d)" for lg p0 ps
  proof -
    from argmax_nonempty[OF ne] obtain idx where a: "argmax p0 = Inr idx" by blast
    from argmax_first_max[OF a] len have idx: "idx < length (classes d)" by simp
    show ?thesis
      unfolding predict_returns[OF pp s a idx] by simp
  qed
  show ?thesis
  proof (intro conjI allI impI)
    show "preprocess_features f32 d fd = ([NormalizationWarning e], ?raw)" by (rule pp)
    show "?raw = \<lparr>dtype = Float32,
            data = [map (\<lambda>n. f32 (case fd n of None \<Rightarrow> 0 | Some v \<Rightarrow> v))
                      (columns (features_df d fd))]\<rparr>" by (rule raw)
  next
    fix e' assume "session d ?raw = Inl e'"
    then show "predict f32 d fd t now = ([NormalizationWarning e], Inl e', d)" by (rule raises)
  next
    fix lg p0 ps
    assume "session d ?raw = Inr (lg, p0 # ps) \<and> p0 \<noteq> [] \<and> length p0 \<le> length (classes d)"
    then have "session d ?raw = Inr (lg, p0 # ps)" "p0 \<noteq> []" "length p0 \<le> length (classes d)"
      by simp_all
    then show "\<exists>r d'. predict f32 d fd t now = ([NormalizationWarning e], Inr r, d') \<and>
                all_probabilities r = p0 \<and>
                total_predictions d' = total_predictions d + 1"
      by (rule returns)
  qed
qed

theorem scaler_failure_falls_back_witness:
  "\<exists>e r d'.
     scaler unscaled_detector (features_df unscaled_detector ddos_sample) = Inl e \<and>
     preprocess_features (\<lambda>v. v) unscaled_detector ddos_sample =
       ([NormalizationWarning e], \<lparr>dtype = Float32, data = [[0.05, 0.85, 0.1, 0]]\<rparr>) \<and>
     session unscaled_detector \<lparr>dtype = Float32, data = [[0.05, 0.85, 0.1, 0]]\<rparr> =
       Inr ([[0.05, 0.85, 0.1, 0]], [[0.05, 0.85, 0.1, 0]]) \<and>
     predict (\<lambda>v. v) unscaled_detector ddos_sample 12 ''2025-01-01T00:00:00'' =
       ([NormalizationWarning e], Inr r, d') \<and>
     predicted_class r = ''DDoS-ICMP_Flood'' \<and> total_predictions d' = 1"
proof -
  let ?e = "ValueError ''X has 4 features, but StandardScaler is expecting 46''"
  have sc: "scaler unscaled_detector (features_df unscaled_detector ddos_sample) = Inl ?e"
    by (simp add: unscaled_detector_def init_detector_def failing_scaler_def)
  have cols: "columns (features_df unscaled_detector ddos_sample) = [''f0'', ''f1'', ''f2'', ''f3'']"
    by (simp add: features_df_distinct_names unscaled_detector_def init_detector_def
        example_names_def)
  have sample: "ddos_sample ''f0'' = Some 0.05 \<and> ddos_sample ''f1'' = Some 0.85 \<and>
      ddos_sample ''f2'' = Some 0.1 \<and> ddos_sample ''f3'' = None"
    by (simp add: ddos_sample_def)
  have se: "session unscaled_detector \<lparr>dtype = Float32, data = [[0.05, 0.85, 0.1, 0]]\<rparr> =
       Inr ([[0.05, 0.85, 0.1, 0]], [[0.05, 0.85, 0.1, 0]])"
    by (simp add: unscaled_detector_def init_detector_def example_session_def)
  note run = unscaled_ddos_predict[of 12 "''2025-01-01T00:00:00''"]
  note fallback = scaler_failure_falls_back[OF sc, of "\<lambda>v. v" 12 "''2025-01-01T00:00:00''"]
  from fallback have pp: "preprocess_features (\<lambda>v. v) unscaled_detector ddos_sample =
      ([NormalizationWarning ?e],
       astype (\<lambda>v. v) (df_values (features_df unscaled_detector ddos_sample)))"
    by (rule conjunct1)
  from fallback have "astype (\<lambda>v. v) (df_values (features_df unscaled_detector ddos_sample)) =
      \<lparr>dtype = Float32,
       data = [map (\<lambda>n. case ddos_sample n of None \<Rightarrow> 0 | Some v \<Rightarrow> v)
                 (columns (features_df unscaled_detector ddos_sample))]\<rparr>"
    by (rule conjunct1[OF conjunct2])
  with cols sample
  have raw: "astype (\<lambda>v. v) (df_values (features_df unscaled_detector ddos_sample)) =
      \<lparr>dtype = Float32, data = [[0.05, 0.85, 0.1, 0]]\<rparr>"
    by simp
  have "scaler unscaled_detector (features_df unscaled_detector ddos_sample) = Inl ?e \<and>
     preprocess_features (\<lambda>v. v) unscaled_detector ddos_sample =
       ([NormalizationWarning ?e], \<lparr>dtype = Float32, data = [[0.05, 0.85, 0.1, 0]]\<rparr>) \<and>
     session unscaled_detector \<lparr>dtype = Float32, data = [[0.05, 0.85, 0.1, 0]]\<rparr> =
       Inr ([[0.05, 0.85, 0.1, 0]], [[0.05, 0.85, 0.1, 0]]) \<and>
     predict (\<lambda>v. v) unscaled_detector ddos_sample 12 ''2025-01-01T00:00:00'' =
       ([NormalizationWarning ?e],
        Inr \<lparr>timestamp = ''2025-01-01T00:00:00'', predicted_class = ''DDoS-ICMP_Flood'',
             confidence = 0.85, is_attack = PyBool True, is_benign = False,
             is_high_threat = True, is_ddos = True, res_confidence_threshold = 0.8,
             inference_time_ms = 12, all_probabilities = [0.05, 0.85, 0.1, 0]\<rparr>,
        unscaled_detector\<lparr>total_predictions := 1, inference_times := [12],
          attack_detections := 1\<rparr>)"
    using sc pp raw se run by simp
  then show ?thesis by simp
qed

text \<open>
  Claim C10. A returned prediction with \<open>is_attack\<close> true has a confidence strictly above
  the threshold or strictly above 0.9. With the default threshold 0.8, a sample whose
  confidence is at most 0.8 is therefore never flagged, whatever its class.
\<close>

theorem attack_needs_confidence:
  assumes "predict f32 d fd t now = (out, Inr r, d')"
  shows "(truthy (is_attack r) \<longrightarrow>
            confidence_threshold d < confidence r \<or> 0.9 < confidence r) \<and>
         (confidence_threshold d = 0.8 \<and> confidence r \<le> 0.8 \<longrightarrow> \<not> truthy (is_attack r))"
proof -
  from assms obtain x lg p0 ps idx where
    conf: "confidence r = p0 ! idx"
    and att: "is_attack r = (if is_benign r then PyBool False
                    else critical_attack d (classes d ! idx) (p0 ! idx))"
    by (rule predict_Inr)
  have need: "truthy (is_attack r) \<longrightarrow>
      confidence_threshold d < confidence r \<or> 0.9 < confidence r"
    by (cases "is_benign r") (auto simp: att conf truthy_critical_attack)
  then show ?thesis by auto
qed

theorem attack_needs_confidence_witness:
  "(\<exists>out r d'.
      predict (\<lambda>v. v) example_detector ddos_sample 12 ''2025-01-01T00:00:00'' = (out, Inr r, d') \<and>
      truthy (is_attack r) \<and> confidence_threshold example_detector < confidence r) \<and>
   (\<exists>out r d'.
      predict (\<lambda>v. v) example_detector weak_sample 12 ''2025-01-01T00:00:00'' = (out, Inr r, d') \<and>
      confidence_threshold example_detector = 0.8 \<and> confidence r \<le> 0.8 \<and>
      \<not> truthy (is_attack r))"
proof -
  note strong = example_ddos_predict[of 12 "''2025-01-01T00:00:00''"]
  note weak = example_weak_predict[of 12 "''2025-01-01T00:00:00''"]
  have thr: "confidence_threshold example_detector = 0.8"
    by (simp add: example_detector_def init_detector_def)
  from attack_needs_confidence[OF strong] attack_needs_confidence[OF weak] strong weak thr
  show ?thesis by simp
qed

end
